theory Spec2Isabelle
  imports Complex_Main "HOL-Library.Countable"
begin

section \<open>JSON values and JavaScript truthiness\<close>

text \<open>
  The values that \<open>JSON.parse\<close> returns and that \<open>JSON.stringify\<close> prints. A
  finite number is a fraction, so \<open>rat\<close> holds every one of them; a number of the
  text beyond the range of the doubles (\<open>1e999\<close>, \<open>-1e999\<close>) is parsed to
  \<open>Infinity\<close> or \<open>-Infinity\<close>. An object is its list of properties, in order.
\<close>

datatype json =
    JNull
  | JBool bool
  | JNum rat
  | JInfinity
  | JNegInfinity
  | JStr string
  | JArr "json list"
  | JObj "(string \<times> json) list"

instance json :: countable
  by countable_datatype

text \<open>
  A JavaScript expression over such data may also be \<open>undefined\<close> (a missing
  property, a missing argument): \<open>None\<close>. \<open>truthy\<close> is what \<open>if (x)\<close>,
  \<open>!x\<close> and \<open>x || y\<close> test.
\<close>

fun truthy :: "json option \<Rightarrow> bool" where
  "truthy None = False"
| "truthy (Some JNull) = False"
| "truthy (Some (JBool b)) = b"
| "truthy (Some (JNum r)) = (r \<noteq> 0)"
| "truthy (Some JInfinity) = True"
| "truthy (Some JNegInfinity) = True"
| "truthy (Some (JStr s)) = (s \<noteq> [])"
| "truthy (Some (JArr xs)) = True"
| "truthy (Some (JObj kvs)) = True"

text \<open>
  Whether the conversion of a value to a string, as a template literal makes it,
  returns. An object with a property \<open>toString\<close> of its own has lost the method
  (no value of a JSON text can be called) and \<open>valueOf\<close> gives no primitive, so the
  conversion throws a TypeError; every other object is \<open>[object Object]\<close>. An
  array is the join of its elements.
\<close>

fun stringifiable :: "json \<Rightarrow> bool" where
  "stringifiable (JArr xs) = list_all stringifiable xs"
| "stringifiable (JObj kvs) = (map_of kvs ''toString'' = None)"
| "stringifiable v = True"


text \<open>
  The platform's \<open>JSON.parse\<close> (\<open>None\<close>: it throws a SyntaxError),
  \<open>JSON.stringify(v, null, 2)\<close> and \<open>JSON.stringify(v)\<close> are parameters of the
  model, as is the clock.
\<close>

type_synonym parser = "string \<Rightarrow> json option"
type_synonym printer = "json \<Rightarrow> string"

section \<open>The log store: lib/logger.js\<close>

text \<open>
  \<open>LOG_FILE\<close>: \<open>None\<close> when \<open>fs.existsSync\<close> is false, otherwise the text of the
  file.
\<close>

type_synonym disk = "string option"

text \<open>
  What can be thrown: the platform's errors by their kind, \<open>new Error(msg)\<close> by its
  message.
\<close>

datatype exn = SyntaxError | TypeError | IOError | Error string

text \<open>
  Whether \<open>fs.readFileSync\<close> or \<open>fs.writeFileSync\<close> fails in a call is decided by
  the environment. A write that fails is taken to leave the file as it was.
\<close>

datatype fault = NoFault | ReadFault | WriteFault

record log =
  level :: string
  status :: "json option"
  message :: "json option"

datatype channel = ConsoleLog | ConsoleError | ConsoleWarn | ConsoleInfo

text \<open>
  A line of the console: \<open>Formatted ch ts lvl msg\<close> is the text
  \<open>[ts] [lvl] msg\<close> of \<open>formatMessage\<close> printed on channel \<open>ch\<close>;
  \<open>WriteFailed e\<close> is
  \<open>console.error("Failed to write to log file:", err?.message || err)\<close>.
\<close>

datatype console_line =
    Formatted channel string string "json option"
  | WriteFailed exn

text \<open>
  \<open>messageObj\<close> as \<open>JSON.stringify\<close> prints it: a property whose value is
  \<open>undefined\<close> is left out.
\<close>

definition messageObj :: "string \<Rightarrow> log \<Rightarrow> json" where
  "messageObj now l =
     JObj ([(''timestamp'', JStr now),
            (''level'', JStr (level l)),
            (''status'', (case status l of
                            None \<Rightarrow> JStr ''N/A''
                          | Some s \<Rightarrow> if truthy (Some s) then s else JStr ''N/A''))]
           @ (case message l of None \<Rightarrow> [] | Some m \<Rightarrow> [(''message'', m)]))"

text \<open>
  The body of the \<open>try\<close> block of \<open>writeToFile\<close>. \<open>existingLogs.reverse()\<close> is a
  TypeError on everything but an array.
\<close>

definition existingLogs :: "parser \<Rightarrow> fault \<Rightarrow> disk \<Rightarrow> exn + json" where
  "existingLogs parse f d =
     (case d of
        None \<Rightarrow> Inr (JArr [])
      | Some t \<Rightarrow>
          if f = ReadFault then Inl IOError
          else (case parse t of None \<Rightarrow> Inl SyntaxError | Some v \<Rightarrow> Inr v))"

definition writeToFile_try ::
  "parser \<Rightarrow> printer \<Rightarrow> string \<Rightarrow> log \<Rightarrow> fault \<Rightarrow> disk \<Rightarrow> exn + disk" where
  "writeToFile_try parse pretty now l f d =
     (case existingLogs parse f d of
        Inl e \<Rightarrow> Inl e
      | Inr (JArr xs) \<Rightarrow>
          if f = WriteFault then Inl IOError
          else Inr (Some (pretty (JArr (rev (take 488 (rev xs)) @ [messageObj now l]))))
      | Inr _ \<Rightarrow> Inl TypeError)"

text \<open>
  \<open>writeToFile\<close>: the \<open>catch\<close> reports on the console and returns. The result is the
  file afterwards and what was printed; there is no exception left to return. A
  write that fails is taken to leave the file as it was.
\<close>

definition writeToFile ::
  "parser \<Rightarrow> printer \<Rightarrow> string \<Rightarrow> log \<Rightarrow> fault \<Rightarrow> disk \<Rightarrow> disk \<times> console_line list" where
  "writeToFile parse pretty now l f d =
     (case writeToFile_try parse pretty now l f d of
        Inl e \<Rightarrow> (d, [WriteFailed e])
      | Inr d' \<Rightarrow> (d', []))"

text \<open>
  \<open>formatMessage\<close>: the text \<open>[ts] [lvl] msg\<close>, kept as its three parts, or the
  TypeError of a message that does not convert to a string (\<open>undefined\<close> does).
\<close>

definition formatMessage ::
  "string \<Rightarrow> string \<Rightarrow> json option \<Rightarrow> exn + string \<times> string \<times> json option" where
  "formatMessage ts lvl msg =
     (case msg of
        None \<Rightarrow> Inr (ts, lvl, msg)
      | Some v \<Rightarrow> if stringifiable v then Inr (ts, lvl, msg) else Inl TypeError)"

text \<open>
  The four methods of \<open>logger\<close>. Each reads the clock twice: \<open>t1\<close> in
  \<open>formatMessage\<close>, \<open>t2\<close> in \<open>writeToFile\<close>. \<open>formatMessage\<close> is called
  first and outside any \<open>try\<close>: what it throws leaves the method (\<open>Inl\<close>) with
  nothing printed and nothing written.
\<close>

definition logger_log ::
  "parser \<Rightarrow> printer \<Rightarrow> string \<Rightarrow> string \<Rightarrow> fault \<Rightarrow> json option \<Rightarrow> json option \<Rightarrow> disk
     \<Rightarrow> exn + disk \<times> console_line list" where
  "logger_log parse pretty t1 t2 f msg st d =
     (let lvl = ''INFO''
      in case formatMessage t1 lvl msg of
           Inl e \<Rightarrow> Inl e
         | Inr (ts, lv, m) \<Rightarrow>
             (let r = writeToFile parse pretty t2 \<lparr>level = lvl, status = st, message = msg\<rparr> f d
              in Inr (fst r, Formatted ConsoleLog ts lv m # snd r)))"

definition logger_error ::
  "parser \<Rightarrow> printer \<Rightarrow> string \<Rightarrow> string \<Rightarrow> fault \<Rightarrow> json option \<Rightarrow> json option \<Rightarrow> disk
     \<Rightarrow> exn + disk \<times> console_line list" where
  "logger_error parse pretty t1 t2 f msg st d =
     (let lvl = ''ERROR''
      in case formatMessage t1 lvl msg of
           Inl e \<Rightarrow> Inl e
         | Inr (ts, lv, m) \<Rightarrow>
             (let r = writeToFile parse pretty t2 \<lparr>level = lvl, status = st, message = msg\<rparr> f d
              in Inr (fst r, Formatted ConsoleError ts lv m # snd r)))"

definition logger_warn ::
  "parser \<Rightarrow> printer \<Rightarrow> string \<Rightarrow> string \<Rightarrow> fault \<Rightarrow> json option \<Rightarrow> json option \<Rightarrow> disk
     \<Rightarrow> exn + disk \<times> console_line list" where
  "logger_warn parse pretty t1 t2 f msg st d =
     (let lvl = ''WARN''
      in case formatMessage t1 lvl msg of
           Inl e \<Rightarrow> Inl e
         | Inr (ts, lv, m) \<Rightarrow>
             (let r = writeToFile parse pretty t2 \<lparr>level = lvl, status = st, message = msg\<rparr> f d
              in Inr (fst r, Formatted ConsoleWarn ts lv m # snd r)))"

definition logger_info ::
  "parser \<Rightarrow> printer \<Rightarrow> string \<Rightarrow> string \<Rightarrow> fault \<Rightarrow> json option \<Rightarrow> json option \<Rightarrow> disk
     \<Rightarrow> exn + disk \<times> console_line list" where
  "logger_info parse pretty t1 t2 f msg st d =
     (let lvl = ''INFO''
      in case formatMessage t1 lvl msg of
           Inl e \<Rightarrow> Inl e
         | Inr (ts, lv, m) \<Rightarrow>
             (let r = writeToFile parse pretty t2 \<lparr>level = lvl, status = st, message = msg\<rparr> f d
              in Inr (fst r, Formatted ConsoleInfo ts lv m # snd r)))"

text \<open>
  A run of appends, each with the time it is stamped with, none of them hit by an I/O
  fault.
\<close>

fun append_all :: "parser \<Rightarrow> printer \<Rightarrow> (string \<times> log) list \<Rightarrow> disk \<Rightarrow> disk" where
  "append_all parse pretty [] d = d"
| "append_all parse pretty (e # es) d =
     append_all parse pretty es (fst (writeToFile parse pretty (fst e) (snd e) NoFault d))"

text \<open>The entries of the persisted store: what \<open>JSON.parse\<close> reads from the file, when
  that is an array.\<close>

definition stored :: "parser \<Rightarrow> disk \<Rightarrow> json list option" where
  "stored parse d =
     (case d of
        None \<Rightarrow> None
      | Some t \<Rightarrow> (case parse t of Some (JArr xs) \<Rightarrow> Some xs | _ \<Rightarrow> None))"

section \<open>The write route: POST /api/write-log\<close>

record http_response =
  code :: nat
  payload :: json

text \<open>
  \<open>req.body\<close> is the object the body parser made of the request: its properties.
  The handler answers (\<open>Inr\<close>) or throws (\<open>Inl\<close>); what it throws goes to the
  framework, which answers 500 in its place.
\<close>

definition write_log ::
  "parser \<Rightarrow> printer \<Rightarrow> string \<Rightarrow> string \<Rightarrow> fault \<Rightarrow> (string \<times> json) list \<Rightarrow> disk
     \<Rightarrow> (exn + http_response) \<times> disk \<times> console_line list" where
  "write_log parse pretty t1 t2 f body d =
     (let lvl = map_of body ''level'';
          msg = map_of body ''message'';
          st = map_of body ''status''
      in if \<not> truthy lvl \<or> \<not> truthy msg
         then (Inr \<lparr>code = 400,
                    payload = JObj [(''error'', JStr ''Level and message are required'')]\<rparr>,
               d, [])
         else (case logger_log parse pretty t1 t2 f msg st d of
                 Inl e \<Rightarrow> (Inl e, d, [])
               | Inr r \<Rightarrow>
                   (Inr \<lparr>code = 201,
                         payload = JObj [(''message'', JStr ''Log written successfully'')]\<rparr>,
                    fst r, snd r)))"

section \<open>The read route: /api/logs\<close>

text \<open>
  \<open>new Date(x).getTime()\<close> is a whole number of milliseconds or \<open>NaN\<close>. The
  conversion itself is the platform's: a parameter \<open>date\<close> of the model.
\<close>

datatype jsnum = NaN | Ms int

text \<open>\<open>req.query.from\<close> and \<open>req.query.to\<close>: \<open>undefined\<close> or a string.\<close>

datatype qparam = Omitted | Given string

definition isValidParam :: "qparam \<Rightarrow> bool" where
  "isValidParam p =
     (case p of
        Omitted \<Rightarrow> False
      | Given s \<Rightarrow> s \<noteq> [] \<and> s \<noteq> ''null'' \<and> s \<noteq> ''undefined'')"

text \<open>\<open>fromTime\<close> and \<open>toTime\<close>: \<open>None\<close> is \<open>null\<close>.\<close>

definition bound_time :: "(json \<Rightarrow> jsnum) \<Rightarrow> qparam \<Rightarrow> jsnum option" where
  "bound_time date p =
     (case p of
        Omitted \<Rightarrow> None
      | Given s \<Rightarrow> if isValidParam p then Some (date (JStr s)) else None)"

text \<open>\<open>!fromTime\<close>: \<open>null\<close>, \<open>NaN\<close> and \<open>0\<close> are the falsy ones.\<close>

fun falsy_time :: "jsnum option \<Rightarrow> bool" where
  "falsy_time None = True"
| "falsy_time (Some NaN) = True"
| "falsy_time (Some (Ms n)) = (n = 0)"

text \<open>\<open>>=\<close> and \<open><=\<close> on numbers: false as soon as one side is \<open>NaN\<close>.\<close>

fun num_ge :: "jsnum \<Rightarrow> jsnum \<Rightarrow> bool" where
  "num_ge (Ms a) (Ms b) = (b \<le> a)"
| "num_ge _ _ = False"

fun num_le :: "jsnum \<Rightarrow> jsnum \<Rightarrow> bool" where
  "num_le (Ms a) (Ms b) = (a \<le> b)"
| "num_le _ _ = False"

definition passesFilter :: "jsnum option \<Rightarrow> jsnum option \<Rightarrow> jsnum \<Rightarrow> bool" where
  "passesFilter fromTime toTime logTime =
     ((case fromTime of None \<Rightarrow> True
        | Some b \<Rightarrow> falsy_time (Some b) \<or> num_ge logTime b)
      \<and> (case toTime of None \<Rightarrow> True
          | Some b \<Rightarrow> falsy_time (Some b) \<or> num_le logTime b))"

text \<open>
  The response as the handler drives it: \<open>res.write\<close> sends the headers with the
  first bytes, \<open>res.status(500).json(...)\<close> and \<open>res.end()\<close> finish it.
\<close>

record res =
  statusCode :: nat
  headersSent :: bool
  written :: string
  finished :: bool

definition res_init :: res where
  "res_init = \<lparr>statusCode = 200, headersSent = False, written = [], finished = False\<rparr>"

definition res_write :: "string \<Rightarrow> res \<Rightarrow> res" where
  "res_write s r = r\<lparr>headersSent := True, written := written r @ s\<rparr>"

definition res_end :: "res \<Rightarrow> res" where
  "res_end r = r\<lparr>headersSent := True, finished := True\<rparr>"

definition res_500 :: "printer \<Rightarrow> res \<Rightarrow> res" where
  "res_500 stringify r =
     r\<lparr>statusCode := 500, headersSent := True,
       written := written r @ stringify (JObj [(''error'', JStr ''Internal Server Error'')]),
       finished := True\<rparr>"

text \<open>
  A read stream over \<open>LOG_FILE\<close>: its \<open>data\<close> events in order, then \<open>end\<close> or
  \<open>error\<close>. A file that does not exist gives \<open>error\<close> at once; a file that exists
  is delivered whole, in chunks that are not empty.
\<close>

datatype ending = End | Failed

type_synonym stream = "string list \<times> ending"

definition delivers :: "disk \<Rightarrow> stream \<Rightarrow> bool" where
  "delivers d st =
     (case d of
        None \<Rightarrow> st = ([], Failed)
      | Some t \<Rightarrow> snd st = End \<and> concat (fst st) = t \<and> [] \<notin> set (fst st))"

text \<open>\<open>log.timestamp\<close> and the like, on a value that is not \<open>null\<close>.\<close>

fun prop_of :: "string \<Rightarrow> json \<Rightarrow> json option" where
  "prop_of k (JObj kvs) = map_of kvs k"
| "prop_of k _ = None"

record reader =
  buffer :: string
  isFirstLog :: bool
  arrayStarted :: bool
  response :: res

definition reader_init :: reader where
  "reader_init = \<lparr>buffer = [], isFirstLog = True, arrayStarted = False, response = res_init\<rparr>"

text \<open>The callback of \<open>logsArray.forEach\<close>, on an element that is not \<open>null\<close>.\<close>

definition on_log ::
  "printer \<Rightarrow> (json \<Rightarrow> jsnum) \<Rightarrow> jsnum option \<Rightarrow> jsnum option \<Rightarrow> json \<Rightarrow> reader \<Rightarrow> reader" where
  "on_log stringify date fromTime toTime lg s =
     (case prop_of ''timestamp'' lg of
        None \<Rightarrow> s
      | Some ts \<Rightarrow>
          if \<not> truthy (Some ts) then s
          else if passesFilter fromTime toTime (date ts)
          then s\<lparr>isFirstLog := False,
                 response := res_write (stringify lg)
                   (if isFirstLog s then response s else res_write '','' (response s))\<rparr>
          else s)"

text \<open>
  \<open>forEach\<close>: reading \<open>timestamp\<close> of \<open>null\<close> is a TypeError, which ends the loop
  with what was written so far (the flag of the result).
\<close>

fun forEach_log ::
  "printer \<Rightarrow> (json \<Rightarrow> jsnum) \<Rightarrow> jsnum option \<Rightarrow> jsnum option \<Rightarrow> json list \<Rightarrow> reader
     \<Rightarrow> reader \<times> bool" where
  "forEach_log stringify date fromTime toTime [] s = (s, False)"
| "forEach_log stringify date fromTime toTime (lg # lgs) s =
     (if lg = JNull then (s, True)
      else forEach_log stringify date fromTime toTime lgs
             (on_log stringify date fromTime toTime lg s))"

text \<open>
  The \<open>data\<close> handler. Its \<open>catch\<close> swallows the SyntaxError of an incomplete
  buffer, the "Logs must be an array" error and the TypeError of the loop alike, and
  the buffer is emptied only when none of them was thrown.
\<close>

definition on_data ::
  "parser \<Rightarrow> printer \<Rightarrow> (json \<Rightarrow> jsnum) \<Rightarrow> jsnum option \<Rightarrow> jsnum option \<Rightarrow> reader \<Rightarrow> string
     \<Rightarrow> reader" where
  "on_data parse stringify date fromTime toTime s chunk =
     (let s0 = s\<lparr>buffer := buffer s @ chunk\<rparr>
      in case parse (buffer s0) of
           None \<Rightarrow> s0
         | Some (JArr logsArray) \<Rightarrow>
             (let s1 = (if arrayStarted s0 then s0
                        else s0\<lparr>arrayStarted := True,
                                response := res_write ''['' (response s0)\<rparr>);
                  r = forEach_log stringify date fromTime toTime logsArray s1
              in if snd r then fst r else (fst r)\<lparr>buffer := []\<rparr>)
         | Some _ \<Rightarrow> s0)"

definition on_end :: "reader \<Rightarrow> res" where
  "on_end s =
     res_end (if arrayStarted s then res_write '']'' (response s)
              else res_write ''[]'' (response s))"

definition on_error :: "printer \<Rightarrow> reader \<Rightarrow> res" where
  "on_error stringify s =
     (if \<not> headersSent (response s) then res_500 stringify (response s)
      else res_end (response s))"

text \<open>
  The branch without a filter: \<open>stream.pipe(res)\<close> writes each chunk as it comes and
  ends the response with the stream; on \<open>error\<close> the handler answers 500 unless the
  headers are out already.
\<close>

definition passthrough :: "printer \<Rightarrow> stream \<Rightarrow> res" where
  "passthrough stringify st =
     (let r = foldl (\<lambda>r c. res_write c r) res_init (fst st)
      in case snd st of
           End \<Rightarrow> res_end r
         | Failed \<Rightarrow> if \<not> headersSent r then res_500 stringify r else r)"

text \<open>
  The handler of \<open>/api/logs\<close>, as the response it leaves. Its calls of
  \<open>logger.error\<close> write to the console and the log file, not to the response.
\<close>

definition logs_handler ::
  "parser \<Rightarrow> printer \<Rightarrow> (json \<Rightarrow> jsnum) \<Rightarrow> qparam \<Rightarrow> qparam \<Rightarrow> stream \<Rightarrow> res" where
  "logs_handler parse stringify date from_q to_q st =
     (let fromTime = bound_time date from_q;
          toTime = bound_time date to_q
      in if falsy_time fromTime \<and> falsy_time toTime then passthrough stringify st
         else (let s = foldl (on_data parse stringify date fromTime toTime) reader_init (fst st)
               in case snd st of End \<Rightarrow> on_end s | Failed \<Rightarrow> on_error stringify s))"

section \<open>The spec's reading of a range query\<close>

text \<open>
  The bound a query parameter supplies, in the spec's words: none when the parameter
  is omitted, is \<open>"null"\<close> or \<open>"undefined"\<close>, or is not a date; otherwise its
  instant.
\<close>

definition spec_bound :: "(json \<Rightarrow> jsnum) \<Rightarrow> qparam \<Rightarrow> int option" where
  "spec_bound date p =
     (case p of
        Omitted \<Rightarrow> None
      | Given s \<Rightarrow>
          if isValidParam p then (case date (JStr s) of NaN \<Rightarrow> None | Ms n \<Rightarrow> Some n)
          else None)"

text \<open>
  The spec's filter: an entry without a timestamp never passes; otherwise
  (from absent or t >= from) and (to absent or t <= to), both bounds inclusive.
\<close>

definition spec_passes :: "(json \<Rightarrow> jsnum) \<Rightarrow> qparam \<Rightarrow> qparam \<Rightarrow> json \<Rightarrow> bool" where
  "spec_passes date from_q to_q e =
     (case prop_of ''timestamp'' e of
        None \<Rightarrow> False
      | Some ts \<Rightarrow>
          (case spec_bound date from_q of None \<Rightarrow> True | Some a \<Rightarrow> num_ge (date ts) (Ms a))
          \<and> (case spec_bound date to_q of None \<Rightarrow> True | Some b \<Rightarrow> num_le (date ts) (Ms b)))"

text \<open>A JSON array as the handler streams it: the entries joined by commas, in brackets.\<close>

fun joined :: "string list \<Rightarrow> string" where
  "joined [] = []"
| "joined [x] = x"
| "joined (x # y # ys) = x @ '','' @ joined (y # ys)"

definition streamed_array :: "printer \<Rightarrow> json list \<Rightarrow> string" where
  "streamed_array stringify es = ''['' @ joined (map stringify es) @ '']''"

text \<open>
  What the handler's loop does to an entry, as a predicate: the entry is written when
  it has a truthy timestamp that passes the filter.
\<close>

definition selected :: "(json \<Rightarrow> jsnum) \<Rightarrow> jsnum option \<Rightarrow> jsnum option \<Rightarrow> json \<Rightarrow> bool" where
  "selected date fromTime toTime e =
     (case prop_of ''timestamp'' e of
        None \<Rightarrow> False
      | Some ts \<Rightarrow> truthy (Some ts) \<and> passesFilter fromTime toTime (date ts))"

text \<open>The texts of a run of entries with a comma before each but the very first.\<close>

fun emitted :: "bool \<Rightarrow> string list \<Rightarrow> string" where
  "emitted first [] = []"
| "emitted first (x # xs) = (if first then x else '','' @ x) @ emitted False xs"


section \<open>The schedule registry: ScheduleManager\<close>

text \<open>Decimal digits of a number, as a template literal prints it.\<close>

fun dec :: "nat \<Rightarrow> string" where
  "dec n = (if n < 10 then [''0123456789'' ! n]
            else dec (n div 10) @ [''0123456789'' ! (n mod 10)])"

declare dec.simps [simp del]

record ScheduleConfig =
  schedule_id :: string
  endpoint :: string
  interval :: string
  cronExpression :: string
  authToken :: "string option"
  timeRange :: "string option"
  createdAt :: string

record ScheduleManager =
  schedules :: "string \<rightharpoonup> ScheduleConfig"
  scheduleCounter :: nat

record schedule_options =
  opt_authToken :: "string option"
  opt_timeRange :: "string option"

text \<open>
  What a \<open>throw\<close> carries as far as the \<open>catch\<close> of \<open>createSchedule\<close> looks:
  an \<open>Error\<close> with its message, or something that is not an \<open>Error\<close>.
\<close>

datatype thrown = ErrorObject string | NotAnError

text \<open>
  \<open>agent.generate(prompt)\<close> is the external interpreter: it rejects, or it resolves
  with a reply. A reply has a \<open>text\<close> that is a string, or it has none: then
  \<open>response.text.trim()\<close> throws a TypeError, whose message is the engine's and is
  given with the reply. The prompt is made of the clock and the interval, so the
  agent is a function of the two.
\<close>

datatype reply = WithText string | WithoutText string

type_synonym agent = "string \<Rightarrow> string \<Rightarrow> thrown + reply"

text \<open>
  \<open>response.text.trim()\<close> and the \<open>replace\<close> that follows it, which removes every
  backquote, quote and double quote. \<open>String.prototype.trim\<close> is the platform's (it
  removes the white space and line terminators of Unicode at both ends): a
  parameter.
\<close>

definition parseToCronExpression ::
  "(string \<Rightarrow> string) \<Rightarrow> agent \<Rightarrow> string \<Rightarrow> string \<Rightarrow> thrown + string" where
  "parseToCronExpression trim ag now itv =
     (case ag now itv of
        Inl e \<Rightarrow> Inl e
      | Inr (WithoutText msg) \<Rightarrow> Inl (ErrorObject msg)
      | Inr (WithText txt) \<Rightarrow>
          Inr (filter (\<lambda>c. c \<notin> set [CHR 0x60, CHR 0x27, CHR 0x22]) (trim txt)))"

text \<open>
  \<open>createSchedule\<close>: \<open>now\<close> is the clock of the prompt, \<open>ms\<close> is \<open>Date.now()\<close>,
  \<open>created\<close> the clock of \<open>createdAt\<close>. The result is the id and the cron
  expression it returns (the \<open>message\<close> beside them is prose made of the same
  values) and the registry afterwards; \<open>Inl\<close> is the error it throws, the registry
  untouched.
\<close>

definition createSchedule ::
  "(string \<Rightarrow> string) \<Rightarrow> agent \<Rightarrow> string \<Rightarrow> nat \<Rightarrow> string \<Rightarrow> string \<Rightarrow> string
     \<Rightarrow> schedule_options option \<Rightarrow> ScheduleManager
     \<Rightarrow> thrown + ((string \<times> string) \<times> ScheduleManager)" where
  "createSchedule trim ag now ms created ep itv opts M =
     (case parseToCronExpression trim ag now itv of
        Inl e \<Rightarrow>
          Inl (ErrorObject (''Failed to create schedule: '' @
                 (case e of ErrorObject m \<Rightarrow> m | NotAnError \<Rightarrow> ''Unknown error'')))
      | Inr cron \<Rightarrow>
          (let counter = scheduleCounter M + 1;
               scheduleId = ''schedule-'' @ dec counter @ ''-'' @ dec ms;
               config = \<lparr>schedule_id = scheduleId, endpoint = ep, interval = itv,
                         cronExpression = cron,
                         authToken = (case opts of None \<Rightarrow> None | Some opt \<Rightarrow> opt_authToken opt),
                         timeRange = (case opts of
                                        None \<Rightarrow> Some ''last 1 hour''
                                      | Some opt \<Rightarrow>
                                          (case opt_timeRange opt of
                                             None \<Rightarrow> Some ''last 1 hour''
                                           | Some tr \<Rightarrow> if tr \<noteq> [] then Some tr
                                                        else Some ''last 1 hour'')),
                         createdAt = created\<rparr>
           in Inr ((scheduleId, cron),
                   M\<lparr>schedules := (schedules M)(scheduleId \<mapsto> config),
                     scheduleCounter := counter\<rparr>)))"

section \<open>The analysis tool's log fetch: getLogs\<close>

record fetch_request =
  req_url :: string
  req_method :: string
  req_headers :: "(string \<times> string) list"

text \<open>
  A response: \<open>response.status\<close>, \<open>response.statusText\<close> and the body, \<open>None\<close>
  when \<open>response.body\<close> is \<open>null\<close>, else the chunks its reader yields and
  whether it ends or breaks off.
\<close>

record fetch_response =
  status_code :: nat
  statusText :: string
  body_stream :: "stream option"

datatype fetched = NetworkFailure | Response fetch_response

definition response_ok :: "fetch_response \<Rightarrow> bool" where
  "response_ok r = (200 \<le> status_code r \<and> status_code r \<le> 299)"

definition null_or :: "string option \<Rightarrow> string" where
  "null_or x = (case x of None \<Rightarrow> ''null'' | Some s \<Rightarrow> s)"

definition logs_request :: "string option \<times> string option \<Rightarrow> string \<Rightarrow> string option \<Rightarrow> fetch_request" where
  "logs_request bounds u token =
     \<lparr>req_url = u @ ''?from='' @ null_or (fst bounds) @ ''&to='' @ null_or (snd bounds),
      req_method = ''POST'',
      req_headers = (''Content-Type'', ''application/json'') #
        (case token of
           None \<Rightarrow> []
         | Some tk \<Rightarrow> if tk \<noteq> [] then [(''Authorization'', ''Bearer '' @ tk)] else [])\<rparr>"

definition getLogs ::
  "(fetch_request \<Rightarrow> fetched) \<Rightarrow> parser \<Rightarrow> string option \<times> string option \<Rightarrow> string
     \<Rightarrow> string option \<Rightarrow> exn + json" where
  "getLogs net parse bounds u token =
     (case net (logs_request bounds u token) of
        NetworkFailure \<Rightarrow> Inl TypeError
      | Response r \<Rightarrow>
          if \<not> response_ok r then
            (if status_code r = 401 \<or> status_code r = 403
             then Inl (Error (''Authentication required: '' @ dec (status_code r) @ '' ''
                               @ statusText r @ ''. Please provide a valid auth token.''))
             else Inl (Error (''Failed to fetch logs: '' @ dec (status_code r) @ '' ''
                               @ statusText r)))
          else (case body_stream r of
                  None \<Rightarrow> Inl (Error ''Response body is null'')
                | Some (chunks, Failed) \<Rightarrow> Inl TypeError
                | Some (chunks, End) \<Rightarrow>
                    (case parse (concat chunks) of
                       None \<Rightarrow> Inl SyntaxError
                     | Some v \<Rightarrow> Inr v)))"

text \<open>The two flavours of a failed fetch, told apart by how the message starts.\<close>

definition auth_required :: "exn \<Rightarrow> bool" where
  "auth_required e =
     (case e of Error m \<Rightarrow> take 23 m = ''Authentication required'' | _ \<Rightarrow> False)"

definition fetch_failed :: "exn \<Rightarrow> bool" where
  "fetch_failed e =
     (case e of Error m \<Rightarrow> take 20 m = ''Failed to fetch logs'' | _ \<Rightarrow> False)"

section \<open>Worked inputs\<close>

text \<open>
  One entry as \<open>POST /api/write-log\<close> stores it, the store that holds it alone, as
  the text \<open>JSON.stringify(logs, null, 2)\<close> writes, and the platform functions at the
  texts, values and dates of the examples below.
\<close>

definition entry1 :: json where
  "entry1 = JObj [(''timestamp'', JStr ''2025-11-03T10:30:00.000Z''),
                  (''level'', JStr ''INFO''),
                  (''status'', JStr ''N/A''),
                  (''message'', JStr ''disk full'')]"

definition store1 :: string where
  "store1 = ''[\<newline>  {\<newline>    \"timestamp\": \"2025-11-03T10:30:00.000Z\",\<newline>    \"level\": \"INFO\",\<newline>    \"status\": \"N/A\",\<newline>    \"message\": \"disk full\"\<newline>  }\<newline>]''"

definition entry1_line :: string where
  "entry1_line = ''{\"timestamp\":\"2025-11-03T10:30:00.000Z\",\"level\":\"INFO\",\"status\":\"N/A\",\"message\":\"disk full\"}''"

text \<open>
  The entry stored for the message \<open>1e999\<close>, which the body parser reads as
  \<open>Infinity\<close>; the store that holds it alone, where it is printed as \<open>null\<close>; and
  the entry read back from that text.
\<close>

definition entry2 :: json where
  "entry2 = JObj [(''timestamp'', JStr ''2025-11-03T10:30:00.000Z''),
                  (''level'', JStr ''INFO''),
                  (''status'', JStr ''N/A''),
                  (''message'', JInfinity)]"

definition store2 :: string where
  "store2 = ''[\<newline>  {\<newline>    \"timestamp\": \"2025-11-03T10:30:00.000Z\",\<newline>    \"level\": \"INFO\",\<newline>    \"status\": \"N/A\",\<newline>    \"message\": null\<newline>  }\<newline>]''"

definition entry2_read :: json where
  "entry2_read = JObj [(''timestamp'', JStr ''2025-11-03T10:30:00.000Z''),
                       (''level'', JStr ''INFO''),
                       (''status'', JStr ''N/A''),
                       (''message'', JNull)]"

definition parse_at :: parser where
  "parse_at s =
     (if s = ''[]'' then Some (JArr [])
      else if s = store1 then Some (JArr [entry1])
      else if s = store2 then Some (JArr [entry2_read])
      else None)"

definition pretty_at :: printer where
  "pretty_at v =
     (if v = JArr [] then ''[]''
      else if v = JArr [entry1] then store1
      else if v = JArr [entry2] then store2
      else [])"

definition stringify_at :: printer where
  "stringify_at v =
     (if v = JObj [(''error'', JStr ''Internal Server Error'')]
      then ''{\"error\":\"Internal Server Error\"}''
      else if v = entry1 then entry1_line
      else [])"

definition date_at :: "json \<Rightarrow> jsnum" where
  "date_at v =
     (if v = JStr ''1970-01-01T00:00:00.000Z'' then Ms 0
      else if v = JStr ''2025-11-03T00:00:00.000Z'' then Ms 1762128000000
      else if v = JStr ''2025-11-03T10:30:00.000Z'' then Ms 1762165800000
      else NaN)"

text \<open>
  \<open>String.prototype.trim\<close> on texts of ASCII characters, where the white space is
  tab, line feed, vertical tab, form feed, carriage return and space. Three
  interpreters: one that answers \<open>every 30 minutes\<close> with a cron expression in
  backquotes and a line break, one whose call is rejected, one whose reply has no
  text; and two log sources, one answering 403 and one answering 500.
\<close>

definition is_space :: "char \<Rightarrow> bool" where
  "is_space c = (c \<in> set [CHR 0x09, CHR 0x0A, CHR 0x0B, CHR 0x0C, CHR 0x0D, CHR 0x20])"

definition trim_ascii :: "string \<Rightarrow> string" where
  "trim_ascii s = rev (dropWhile is_space (rev (dropWhile is_space s)))"

definition agent_replies :: agent where
  "agent_replies now itv = Inr (WithText (CHR 0x60 # ''*/30 * * * *'' @ [CHR 0x60, CHR 0x0A]))"

definition agent_rejects :: agent where
  "agent_rejects now itv = Inl (ErrorObject ''429 Too Many Requests'')"

definition agent_without_text :: agent where
  "agent_without_text now itv =
     Inr (WithoutText (''Cannot read properties of undefined (reading '' @ [CHR 0x27] @ ''trim''
                       @ [CHR 0x27] @ '')''))"

definition source_403 :: "fetch_request \<Rightarrow> fetched" where
  "source_403 rq = Response \<lparr>status_code = 403, statusText = ''Forbidden'', body_stream = None\<rparr>"

definition source_500 :: "fetch_request \<Rightarrow> fetched" where
  "source_500 rq =
     Response \<lparr>status_code = 500, statusText = ''Internal Server Error'', body_stream = None\<rparr>"

text \<open>
  A serialisation for which reading back what was written holds for every value: a
  value is printed as as many strokes as its number in an enumeration of all values.
\<close>

definition tally :: printer where
  "tally v = replicate (to_nat v) CHR ''|''"

definition untally :: parser where
  "untally s = Some (from_nat (length s))"

section \<open>Appending to the store\<close>

lemma rev_take_rev: "rev (take n (rev xs)) = drop (length xs - n) xs"
  by (simp add: take_rev)

lemma stored_Some_iff:
  "stored parse d = Some xs \<longleftrightarrow> (\<exists>t. d = Some t \<and> parse t = Some (JArr xs))"
  by (auto simp: stored_def split: option.splits json.splits)

text \<open>One append to a store that is absent or holds an array, with no I/O fault.\<close>

lemma writeToFile_healthy:
  assumes "(d = None \<and> xs = []) \<or> stored parse d = Some xs"
  shows "writeToFile parse pretty now l NoFault d =
           (Some (pretty (JArr (drop (length xs - 488) xs @ [messageObj now l]))), [])"
  using assms
  by (auto simp: writeToFile_def writeToFile_try_def existingLogs_def stored_Some_iff rev_take_rev)

lemma stored_written:
  assumes "\<And>v. parse (pretty v) = Some v"
  shows "stored parse (Some (pretty (JArr xs))) = Some xs"
  by (simp add: stored_def assms)

lemma drop_last_step:
  "drop (length (drop (length ys - 488) ys @ [m]) + n - 489) ((drop (length ys - 488) ys @ [m]) @ zs)
     = drop (length ys + Suc n - 489) (ys @ m # zs)"
  by (cases "length ys \<le> 488") (auto simp: add.commute)

text \<open>
  A run of appends to a store of entries \<open>ys\<close> leaves the last 489 of \<open>ys\<close>
  followed by the new entries.
\<close>

lemma append_all_stored:
  assumes rt: "\<And>v. parse (pretty v) = Some v"
  shows "es \<noteq> [] \<Longrightarrow> (d = None \<and> ys = []) \<or> stored parse d = Some ys \<Longrightarrow>
     stored parse (append_all parse pretty es d) =
       Some (drop (length ys + length es - 489) (ys @ map (\<lambda>e. messageObj (fst e) (snd e)) es))"
proof (induction es arbitrary: d ys)
  case Nil
  then show ?case by simp
next
  case (Cons e es)
  let ?ys' = "drop (length ys - 488) ys @ [messageObj (fst e) (snd e)]"
  have step: "fst (writeToFile parse pretty (fst e) (snd e) NoFault d) = Some (pretty (JArr ?ys'))"
    using writeToFile_healthy [OF Cons.prems(2)] by simp
  have st: "stored parse (Some (pretty (JArr ?ys'))) = Some ?ys'"
    by (rule stored_written [OF rt])
  show ?case
  proof (cases "es = []")
    case True
    then show ?thesis using step st by (cases "length ys \<le> 488") auto
  next
    case False
    have "stored parse (append_all parse pretty es (Some (pretty (JArr ?ys')))) =
            Some (drop (length ?ys' + length es - 489) (?ys' @ map (\<lambda>e. messageObj (fst e) (snd e)) es))"
      using Cons.IH [OF False, of "Some (pretty (JArr ?ys'))" ?ys'] st by simp
    then show ?thesis
      using step by (simp only: append_all.simps drop_last_step list.map length_Cons)
  qed
qed

text \<open>
  C1. Bounded retention, as the code has it. Provided \<open>JSON.parse\<close> reads back what
  \<open>JSON.stringify\<close> wrote, after \<open>N \<ge> 1\<close> appends to a store that was absent or
  empty the file holds exactly \<open>min N 489\<close> entries: the newest ones, in the order
  they were appended, the newest last. The cap is 489 (\<open>slice(0, 488)\<close> and the new
  entry), not the 500 of the source's comment and of the spec: from the 490th append
  on the store is shorter than \<open>min N 500\<close>.
\<close>

theorem writeToFile_retention_489:
  assumes "\<And>v. parse (pretty v) = Some v"
      and "es \<noteq> []"
      and "d = None \<or> stored parse d = Some []"
  shows "\<exists>xs. stored parse (append_all parse pretty es d) = Some xs
            \<and> length xs = min (length es) 489
            \<and> xs = drop (length es - 489) (map (\<lambda>e. messageObj (fst e) (snd e)) es)"
proof -
  have "(d = None \<and> ([]::json list) = []) \<or> stored parse d = Some []"
    using assms(3) by simp
  from append_all_stored [OF assms(1) assms(2) this]
  show ?thesis by auto
qed

text \<open>490 appends to an absent store leave 489 entries, where the spec has 490.\<close>

theorem retention_at_490_appends:
  "\<exists>xs. stored untally
          (append_all untally tally
             (replicate 490 (''2025-11-03T10:30:00.000Z'',
                \<lparr>level = ''INFO'', status = None, message = Some (JStr ''tick'')\<rparr>))
             None) = Some xs
        \<and> length xs = 489"
  using writeToFile_retention_489 [of untally tally
      "replicate 490 (''2025-11-03T10:30:00.000Z'',
         \<lparr>level = ''INFO'', status = None, message = Some (JStr ''tick'')\<rparr>)" None]
  by (simp add: untally_def tally_def)

text \<open>
  C4. An append to a file whose text \<open>JSON.parse\<close> rejects does not reset the
  history: the SyntaxError (or the read error before it) is caught and reported on
  the console, and the file is left exactly as it was; the new entry is not stored.
\<close>

theorem writeToFile_corrupt_unchanged:
  assumes "parse t = None"
  shows "writeToFile parse pretty now l f (Some t) =
           (Some t, [WriteFailed (if f = ReadFault then IOError else SyntaxError)])"
  using assms by (simp add: writeToFile_def writeToFile_try_def existingLogs_def)

theorem writeToFile_corrupt_unchanged_witness:
  "writeToFile parse_at pretty_at ''2025-11-03T10:30:00.000Z''
     \<lparr>level = ''INFO'', status = None, message = Some (JStr ''disk full'')\<rparr> NoFault
     (Some ''{not json'') = (Some ''{not json'', [WriteFailed SyntaxError])"
  using writeToFile_corrupt_unchanged [of parse_at "''{not json''" pretty_at
      "''2025-11-03T10:30:00.000Z''"
      "\<lparr>level = ''INFO'', status = None, message = Some (JStr ''disk full'')\<rparr>" NoFault]
  by (simp add: parse_at_def store1_def store2_def)

text \<open>
  The claim as the spec states it fails on the file \<open>{not json\<close>: after the append
  the file is still that text, not a store of the one new entry.
\<close>

theorem writeToFile_corrupt_counterexample:
  "fst (writeToFile parse_at pretty_at ''2025-11-03T10:30:00.000Z''
          \<lparr>level = ''INFO'', status = None, message = Some (JStr ''disk full'')\<rparr> NoFault
          (Some ''{not json'')) = Some ''{not json''
   \<and> stored parse_at
        (fst (writeToFile parse_at pretty_at ''2025-11-03T10:30:00.000Z''
               \<lparr>level = ''INFO'', status = None, message = Some (JStr ''disk full'')\<rparr> NoFault
               (Some ''{not json'')))
       \<noteq> Some [messageObj ''2025-11-03T10:30:00.000Z''
                 \<lparr>level = ''INFO'', status = None, message = Some (JStr ''disk full'')\<rparr>]"
  by (simp add: writeToFile_def writeToFile_try_def existingLogs_def parse_at_def store1_def
      store2_def stored_def)

section \<open>The write route\<close>

lemma write_log_accepted:
  assumes "truthy (map_of body ''level'')"
      and "map_of body ''message'' = Some m"
      and "truthy (Some m)"
      and "stringifiable m"
  shows "write_log parse pretty t1 t2 f body d =
           (Inr \<lparr>code = 201, payload = JObj [(''message'', JStr ''Log written successfully'')]\<rparr>,
            fst (writeToFile parse pretty t2
                   \<lparr>level = ''INFO'', status = map_of body ''status'', message = Some m\<rparr> f d),
            Formatted ConsoleLog t1 ''INFO'' (Some m) #
            snd (writeToFile parse pretty t2
                   \<lparr>level = ''INFO'', status = map_of body ''status'', message = Some m\<rparr> f d))"
  using assms by (simp add: write_log_def logger_log_def formatMessage_def Let_def)

lemma write_log_throws:
  assumes "truthy (map_of body ''level'')"
      and "map_of body ''message'' = Some m"
      and "truthy (Some m)"
      and "\<not> stringifiable m"
  shows "write_log parse pretty t1 t2 f body d = (Inl TypeError, d, [])"
  using assms by (simp add: write_log_def logger_log_def formatMessage_def Let_def)

text \<open>
  C6. A request that \<open>POST /api/write-log\<close> accepts (level and message both there
  and truthy) goes through \<open>logger.log\<close>, whatever level the body gave. When the
  message converts to a string, the request is answered 201 and what it does to the
  file is what \<open>writeToFile\<close> does with the level \<open>INFO\<close>; where the store is
  absent or holds an array and no I/O fault strikes, the entry added at the end has
  \<open>"level": "INFO"\<close>. When the message does not convert to a string,
  \<open>formatMessage\<close> throws a TypeError out of the handler before anything is printed
  or written: the file is left as it was, so no entry of another level is stored
  either.
\<close>

theorem write_log_stores_INFO:
  assumes "truthy (map_of body ''level'')"
      and "map_of body ''message'' = Some m"
      and "truthy (Some m)"
  shows "(stringifiable m \<longrightarrow>
            write_log parse pretty t1 t2 f body d =
              (Inr \<lparr>code = 201, payload = JObj [(''message'', JStr ''Log written successfully'')]\<rparr>,
               fst (writeToFile parse pretty t2
                      \<lparr>level = ''INFO'', status = map_of body ''status'', message = Some m\<rparr> f d),
               Formatted ConsoleLog t1 ''INFO'' (Some m) #
               snd (writeToFile parse pretty t2
                      \<lparr>level = ''INFO'', status = map_of body ''status'', message = Some m\<rparr> f d)))
       \<and> (\<not> stringifiable m \<longrightarrow>
            write_log parse pretty t1 t2 f body d = (Inl TypeError, d, []))
       \<and> (stringifiable m \<and> ((d = None \<and> xs = []) \<or> stored parse d = Some xs) \<longrightarrow>
            fst (snd (write_log parse pretty t1 t2 NoFault body d)) =
              Some (pretty (JArr (drop (length xs - 488) xs @
                [JObj [(''timestamp'', JStr t2),
                       (''level'', JStr ''INFO''),
                       (''status'', (case map_of body ''status'' of
                                       None \<Rightarrow> JStr ''N/A''
                                     | Some s \<Rightarrow> if truthy (Some s) then s else JStr ''N/A'')),
                       (''message'', m)]]))))"
proof (intro conjI impI)
  assume "stringifiable m"
  then show "write_log parse pretty t1 t2 f body d =
              (Inr \<lparr>code = 201, payload = JObj [(''message'', JStr ''Log written successfully'')]\<rparr>,
               fst (writeToFile parse pretty t2
                      \<lparr>level = ''INFO'', status = map_of body ''status'', message = Some m\<rparr> f d),
               Formatted ConsoleLog t1 ''INFO'' (Some m) #
               snd (writeToFile parse pretty t2
                      \<lparr>level = ''INFO'', status = map_of body ''status'', message = Some m\<rparr> f d))"
    using assms by (simp add: write_log_accepted)
next
  assume "\<not> stringifiable m"
  then show "write_log parse pretty t1 t2 f body d = (Inl TypeError, d, [])"
    using assms by (simp add: write_log_throws)
next
  assume h: "stringifiable m \<and> ((d = None \<and> xs = []) \<or> stored parse d = Some xs)"
  then have s: "stringifiable m" and h': "(d = None \<and> xs = []) \<or> stored parse d = Some xs"
    by simp_all
  show "fst (snd (write_log parse pretty t1 t2 NoFault body d)) =
              Some (pretty (JArr (drop (length xs - 488) xs @
                [JObj [(''timestamp'', JStr t2),
                       (''level'', JStr ''INFO''),
                       (''status'', (case map_of body ''status'' of
                                       None \<Rightarrow> JStr ''N/A''
                                     | Some s \<Rightarrow> if truthy (Some s) then s else JStr ''N/A'')),
                       (''message'', m)]])))"
    by (simp add: write_log_accepted [OF assms s] writeToFile_healthy [OF h'] messageObj_def)
qed

text \<open>
  A request with level \<open>ERROR\<close> to an absent store: the file then is \<open>store1\<close>,
  whose one entry has level \<open>INFO\<close>. A request with level \<open>ERROR\<close> and the message
  \<open>{"toString": 1}\<close> to that store: the handler throws and the file is \<open>store1\<close>
  still.
\<close>

theorem write_log_stores_INFO_witness:
  "write_log parse_at pretty_at ''2025-11-03T10:29:59.999Z'' ''2025-11-03T10:30:00.000Z'' NoFault
     [(''level'', JStr ''ERROR''), (''message'', JStr ''disk full'')] None =
     (Inr \<lparr>code = 201, payload = JObj [(''message'', JStr ''Log written successfully'')]\<rparr>,
      Some store1,
      [Formatted ConsoleLog ''2025-11-03T10:29:59.999Z'' ''INFO'' (Some (JStr ''disk full''))])
   \<and> write_log parse_at pretty_at ''2025-11-03T10:31:00.000Z'' ''2025-11-03T10:31:00.001Z'' NoFault
       [(''level'', JStr ''ERROR''), (''message'', JObj [(''toString'', JNum 1)])] (Some store1) =
       (Inl TypeError, Some store1, [])"
  using write_log_stores_INFO [of "[(''level'', JStr ''ERROR''), (''message'', JStr ''disk full'')]"
      "JStr ''disk full''" parse_at pretty_at "''2025-11-03T10:29:59.999Z''"
      "''2025-11-03T10:30:00.000Z''" NoFault None "[]"]
    write_log_stores_INFO [of
      "[(''level'', JStr ''ERROR''), (''message'', JObj [(''toString'', JNum 1)])]"
      "JObj [(''toString'', JNum 1)]" parse_at pretty_at "''2025-11-03T10:31:00.000Z''"
      "''2025-11-03T10:31:00.001Z''" NoFault "Some store1" "[]"]
  by (simp add: writeToFile_healthy [of None "[]"] messageObj_def pretty_at_def entry1_def)

section \<open>Failures of an append\<close>

lemma writeToFile_try_Inl_indep:
  "writeToFile_try parse pretty now l f d = Inl e \<Longrightarrow>
   writeToFile_try parse pretty now' l' f d = Inl e"
  by (auto simp: writeToFile_try_def split: sum.splits json.splits if_splits)

lemma writeToFile_try_fails:
  assumes "(d \<noteq> None \<and> f = ReadFault) \<or> (\<exists>t. d = Some t \<and> parse t = None) \<or> f = WriteFault"
  shows "\<exists>e. writeToFile_try parse pretty now l f d = Inl e"
proof (cases d)
  case None
  then show ?thesis using assms by (simp add: writeToFile_try_def existingLogs_def)
next
  case (Some t)
  show ?thesis
  proof (cases "f = ReadFault")
    case True
    then show ?thesis using Some by (simp add: writeToFile_try_def existingLogs_def)
  next
    case False
    show ?thesis
    proof (cases "parse t")
      case None
      then show ?thesis using Some False by (simp add: writeToFile_try_def existingLogs_def)
    next
      case (Some v)
      then have "f = WriteFault" using assms \<open>d = Some t\<close> False by auto
      then show ?thesis using Some \<open>d = Some t\<close>
        by (cases v) (simp_all add: writeToFile_try_def existingLogs_def)
    qed
  qed
qed

text \<open>
  C8. Whenever an append fails (the read of an existing file fails, \<open>JSON.parse\<close>
  rejects its text, or the write fails), the exception \<open>e\<close> thrown inside the
  \<open>try\<close> block is caught: \<open>writeToFile\<close> returns, for every entry, and \<open>e\<close> is
  reported on the error console and nowhere else. The caller goes on:
  \<open>logger.log\<close>, having printed the message, returns, and the write route still
  answers 201. (A message that does not convert to a string never reaches the
  append: \<open>formatMessage\<close> has thrown before.)
\<close>

theorem writeToFile_never_throws:
  assumes "(d \<noteq> None \<and> f = ReadFault) \<or> (\<exists>t. d = Some t \<and> parse t = None) \<or> f = WriteFault"
      and "truthy (map_of body ''level'')"
      and "map_of body ''message'' = Some m"
      and "truthy (Some m)"
      and "stringifiable m"
  shows "\<exists>e. writeToFile_try parse pretty now l f d = Inl e
            \<and> snd (writeToFile parse pretty now l f d) = [WriteFailed e]
            \<and> logger_log parse pretty t1 t2 f (Some m) st d =
                Inr (fst (writeToFile parse pretty t2
                            \<lparr>level = ''INFO'', status = st, message = Some m\<rparr> f d),
                     [Formatted ConsoleLog t1 ''INFO'' (Some m), WriteFailed e])
            \<and> write_log parse pretty t1 t2 f body d =
                (Inr \<lparr>code = 201, payload = JObj [(''message'', JStr ''Log written successfully'')]\<rparr>,
                 fst (writeToFile parse pretty t2
                        \<lparr>level = ''INFO'', status = map_of body ''status'', message = Some m\<rparr> f d),
                 [Formatted ConsoleLog t1 ''INFO'' (Some m), WriteFailed e])"
proof -
  obtain e where e: "writeToFile_try parse pretty now l f d = Inl e"
    using writeToFile_try_fails [OF assms(1)] by blast
  have e': "writeToFile_try parse pretty t2 l' f d = Inl e" for l'
    by (rule writeToFile_try_Inl_indep [OF e])
  have "snd (writeToFile parse pretty now l f d) = [WriteFailed e]"
    by (simp add: writeToFile_def e)
  moreover have "logger_log parse pretty t1 t2 f (Some m) st d =
      Inr (fst (writeToFile parse pretty t2
                  \<lparr>level = ''INFO'', status = st, message = Some m\<rparr> f d),
           [Formatted ConsoleLog t1 ''INFO'' (Some m), WriteFailed e])"
    using assms(5) by (simp add: logger_log_def formatMessage_def writeToFile_def e' Let_def)
  moreover have "write_log parse pretty t1 t2 f body d =
      (Inr \<lparr>code = 201, payload = JObj [(''message'', JStr ''Log written successfully'')]\<rparr>,
       fst (writeToFile parse pretty t2
              \<lparr>level = ''INFO'', status = map_of body ''status'', message = Some m\<rparr> f d),
       [Formatted ConsoleLog t1 ''INFO'' (Some m), WriteFailed e])"
    by (simp add: write_log_accepted [OF assms(2-5)] writeToFile_def e')
  ultimately show ?thesis using e by blast
qed

text \<open>A write that fails on the store \<open>store1\<close>.\<close>

theorem writeToFile_never_throws_witness:
  "\<exists>e. writeToFile_try parse_at pretty_at ''2025-11-03T10:30:00.000Z''
          \<lparr>level = ''WARN'', status = None, message = Some (JStr ''slow'')\<rparr> WriteFault (Some store1)
          = Inl e
      \<and> snd (writeToFile parse_at pretty_at ''2025-11-03T10:30:00.000Z''
          \<lparr>level = ''WARN'', status = None, message = Some (JStr ''slow'')\<rparr> WriteFault (Some store1))
          = [WriteFailed e]
      \<and> fst (write_log parse_at pretty_at ''2025-11-03T10:29:59.999Z'' ''2025-11-03T10:30:00.000Z''
          WriteFault [(''level'', JStr ''ERROR''), (''message'', JStr ''disk full'')] (Some store1))
          = Inr \<lparr>code = 201, payload = JObj [(''message'', JStr ''Log written successfully'')]\<rparr>
      \<and> snd (snd (write_log parse_at pretty_at ''2025-11-03T10:29:59.999Z''
          ''2025-11-03T10:30:00.000Z''
          WriteFault [(''level'', JStr ''ERROR''), (''message'', JStr ''disk full'')] (Some store1)))
          = [Formatted ConsoleLog ''2025-11-03T10:29:59.999Z'' ''INFO'' (Some (JStr ''disk full'')),
             WriteFailed e]"
  using writeToFile_never_throws [of "Some store1" WriteFault parse_at
      "[(''level'', JStr ''ERROR''), (''message'', JStr ''disk full'')]" "JStr ''disk full''"
      pretty_at "''2025-11-03T10:30:00.000Z''"
      "\<lparr>level = ''WARN'', status = None, message = Some (JStr ''slow'')\<rparr>"
      "''2025-11-03T10:29:59.999Z''" "''2025-11-03T10:30:00.000Z''" None]
  by auto

section \<open>Reading the store back\<close>

lemma foldl_res_write:
  "foldl (\<lambda>r c. res_write c r) r cs =
     (if cs = [] then r else r\<lparr>headersSent := True, written := written r @ concat cs\<rparr>)"
  by (induction cs arbitrary: r) (auto simp: res_write_def)

text \<open>The branch without a filter sends the file as it is.\<close>

lemma passthrough_End:
  "passthrough stringify (cs, End) =
     \<lparr>statusCode = 200, headersSent = True, written = concat cs, finished = True\<rparr>"
  by (simp add: passthrough_def foldl_res_write res_end_def res_init_def)

lemma passthrough_missing:
  "passthrough stringify ([], Failed) =
     \<lparr>statusCode = 500, headersSent = True,
      written = stringify (JObj [(''error'', JStr ''Internal Server Error'')]), finished = True\<rparr>"
  by (simp add: passthrough_def res_500_def res_init_def)

lemma delivers_None: "delivers None st \<longleftrightarrow> st = ([], Failed)"
  by (simp add: delivers_def)

lemma no_empty_chunks: "\<forall>c\<in>set cs. c = [] \<Longrightarrow> [] \<notin> set cs \<Longrightarrow> cs = []"
  by (cases cs) auto

lemma delivers_empty: "delivers (Some []) st \<longleftrightarrow> st = ([], End)"
  by (cases st) (auto simp: delivers_def dest: no_empty_chunks)

lemma delivers_Some: "delivers (Some t) st \<Longrightarrow> \<exists>cs. st = (cs, End) \<and> concat cs = t"
  by (cases st) (auto simp: delivers_def)

lemma delivers_chars: "delivers (Some t) (map (\<lambda>c. [c]) t, End)"
  by (auto simp: delivers_def)

lemma bound_time_Omitted [simp]: "bound_time date Omitted = None"
  by (simp add: bound_time_def)

lemma unbounded_query:
  "logs_handler parse stringify date Omitted Omitted st = passthrough stringify st"
  by (simp add: logs_handler_def)

lemma logs_handler_unfold:
  "logs_handler parse stringify date from_q to_q st =
     (if falsy_time (bound_time date from_q) \<and> falsy_time (bound_time date to_q)
      then passthrough stringify st
      else (case snd st of
              End \<Rightarrow> on_end (foldl (on_data parse stringify date (bound_time date from_q)
                                 (bound_time date to_q)) reader_init (fst st))
            | Failed \<Rightarrow> on_error stringify (foldl (on_data parse stringify date
                                 (bound_time date from_q) (bound_time date to_q))
                                 reader_init (fst st))))"
  by (simp add: logs_handler_def Let_def)

subsection \<open>The worked store, read with a filter\<close>


lemma parse_at_store1: "parse_at store1 = Some (JArr [entry1])"
  by (simp add: parse_at_def store1_def)

lemma stringify_at_entry1: "stringify_at entry1 = entry1_line"
  by (simp add: stringify_at_def entry1_def)

lemma entry1_timestamp: "prop_of ''timestamp'' entry1 = Some (JStr ''2025-11-03T10:30:00.000Z'')"
  by (simp add: entry1_def)

lemma entry1_not_null: "entry1 \<noteq> JNull"
  by (simp add: entry1_def)

lemma on_log_entry1:
  "on_log stringify_at date_at None (Some (Ms 1762165800000)) entry1 s =
     s\<lparr>isFirstLog := False,
       response := res_write entry1_line
         (if isFirstLog s then response s else res_write '','' (response s))\<rparr>"
  by (simp add: on_log_def entry1_timestamp date_at_def passesFilter_def stringify_at_entry1)

lemma on_data_store1:
  "on_data parse_at stringify_at date_at None (Some (Ms 1762165800000)) reader_init store1 =
     \<lparr>buffer = [], isFirstLog = False, arrayStarted = True,
      response = \<lparr>statusCode = 200, headersSent = True, written = ''['' @ entry1_line,
                  finished = False\<rparr>\<rparr>"
  by (simp add: on_data_def parse_at_store1 on_log_entry1 entry1_not_null reader_init_def
      res_init_def res_write_def Let_def)

lemma filtered_run:
  "logs_handler parse_at stringify_at date_at Omitted (Given ''2025-11-03T10:30:00.000Z'')
     ([store1], End) =
     \<lparr>statusCode = 200, headersSent = True, written = ''['' @ entry1_line @ '']'',
      finished = True\<rparr>"
  by (simp add: logs_handler_def bound_time_def isValidParam_def date_at_def on_data_store1
      on_end_def res_write_def res_end_def)

subsection \<open>Append, then read\<close>








subsection \<open>Malformed bounds\<close>

lemma passesFilter_from_NaN: "passesFilter (Some NaN) toT t = passesFilter None toT t"
  by (simp add: passesFilter_def)

lemma passesFilter_to_NaN: "passesFilter fromT (Some NaN) t = passesFilter fromT None t"
  by (simp add: passesFilter_def)

lemma on_log_NaN:
  "on_log stringify date (Some NaN) toT lg s = on_log stringify date None toT lg s"
  "on_log stringify date fromT (Some NaN) lg s = on_log stringify date fromT None lg s"
  by (simp_all add: on_log_def passesFilter_from_NaN passesFilter_to_NaN split: option.splits)

lemma forEach_log_NaN:
  "forEach_log stringify date (Some NaN) toT lgs s = forEach_log stringify date None toT lgs s"
  "forEach_log stringify date fromT (Some NaN) lgs s = forEach_log stringify date fromT None lgs s"
  by (induction lgs arbitrary: s) (simp_all add: on_log_NaN)

lemma forEach_log_from_NaN:
  "forEach_log stringify date (Some NaN) toT = forEach_log stringify date None toT"
  by (intro ext) (rule forEach_log_NaN)

lemma forEach_log_to_NaN:
  "forEach_log stringify date fromT (Some NaN) = forEach_log stringify date fromT None"
  by (intro ext) (rule forEach_log_NaN)

lemma on_data_from_NaN:
  "on_data parse stringify date (Some NaN) toT = on_data parse stringify date None toT"
  unfolding on_data_def forEach_log_from_NaN by (rule refl)

lemma on_data_to_NaN:
  "on_data parse stringify date fromT (Some NaN) = on_data parse stringify date fromT None"
  unfolding on_data_def forEach_log_to_NaN by (rule refl)

lemma logs_handler_cong:
  assumes "bound_time date p = None \<or> bound_time date p = Some NaN"
  shows "logs_handler parse stringify date p to_q st = logs_handler parse stringify date Omitted to_q st"
    and "logs_handler parse stringify date from_q p st = logs_handler parse stringify date from_q Omitted st"
proof -
  obtain cs e where st: "st = (cs, e)" by (cases st)
  show "logs_handler parse stringify date p to_q st = logs_handler parse stringify date Omitted to_q st"
    using assms unfolding st
    by (cases e) (auto simp: logs_handler_unfold on_data_from_NaN)
  show "logs_handler parse stringify date from_q p st = logs_handler parse stringify date from_q Omitted st"
    using assms unfolding st
    by (cases e) (auto simp: logs_handler_unfold on_data_to_NaN)
qed

lemma statusCode_on_log [simp]:
  "statusCode (response (on_log stringify date fromT toT lg s)) = statusCode (response s)"
  by (simp add: on_log_def res_write_def split: option.splits)

lemma statusCode_forEach_log [simp]:
  "statusCode (response (fst (forEach_log stringify date fromT toT lgs s))) = statusCode (response s)"
  by (induction lgs arbitrary: s) simp_all

lemma statusCode_on_data [simp]:
  "statusCode (response (on_data parse stringify date fromT toT s c)) = statusCode (response s)"
  by (simp add: on_data_def Let_def res_write_def split: option.splits json.splits)

lemma statusCode_foldl_on_data [simp]:
  "statusCode (response (foldl (on_data parse stringify date fromT toT) s cs)) = statusCode (response s)"
  by (induction cs arbitrary: s) simp_all

lemma logs_handler_End_200:
  "snd st = End \<Longrightarrow> statusCode (logs_handler parse stringify date from_q to_q st) = 200"
  by (cases st) (simp add: logs_handler_def passthrough_End on_end_def res_end_def res_write_def
      reader_init_def res_init_def Let_def)

text \<open>
  C7. A bound that is \<open>"null"\<close>, \<open>"undefined"\<close> or not a date, given as \<open>from\<close> or
  as \<open>to\<close>, gets the very response the query gets with that bound left out,
  whatever the other bound and whatever the file stream delivers. The bound causes
  no error response: whenever the stream ends without an error the status is 200.
\<close>

theorem malformed_bound_is_absent:
  assumes "p = Given ''null'' \<or> p = Given ''undefined'' \<or> (\<exists>s. p = Given s \<and> date (JStr s) = NaN)"
  shows "logs_handler parse stringify date p q st = logs_handler parse stringify date Omitted q st
       \<and> logs_handler parse stringify date q p st = logs_handler parse stringify date q Omitted st
       \<and> (snd st = End \<longrightarrow>
            statusCode (logs_handler parse stringify date p q st) = 200
            \<and> statusCode (logs_handler parse stringify date q p st) = 200)"
proof -
  from assms consider "p = Given ''null''" | "p = Given ''undefined''"
    | s where "p = Given s" "date (JStr s) = NaN"
    by blast
  then have b: "bound_time date p = None \<or> bound_time date p = Some NaN"
    by cases (simp_all add: bound_time_def isValidParam_def)
  have "logs_handler parse stringify date p q st = logs_handler parse stringify date Omitted q st"
    by (rule logs_handler_cong(1) [OF b])
  moreover
  have "logs_handler parse stringify date q p st = logs_handler parse stringify date q Omitted st"
    by (rule logs_handler_cong(2) [OF b])
  ultimately show ?thesis
    by (simp add: logs_handler_End_200)
qed

theorem malformed_bound_is_absent_witness:
  "logs_handler parse_at stringify_at date_at (Given ''undefined'') (Given ''2025-11-03T10:30:00.000Z'')
      ([store1], End)
     = logs_handler parse_at stringify_at date_at Omitted (Given ''2025-11-03T10:30:00.000Z'')
         ([store1], End)
   \<and> logs_handler parse_at stringify_at date_at (Given ''2025-11-03T10:30:00.000Z'') (Given ''undefined'')
        ([store1], End)
     = logs_handler parse_at stringify_at date_at (Given ''2025-11-03T10:30:00.000Z'') Omitted
         ([store1], End)
   \<and> statusCode (logs_handler parse_at stringify_at date_at (Given ''undefined'')
        (Given ''2025-11-03T10:30:00.000Z'') ([store1], End)) = 200
   \<and> logs_handler parse_at stringify_at date_at Omitted (Given ''2025-11-03T10:30:00.000Z'')
        ([store1], End)
     = \<lparr>statusCode = 200, headersSent = True, written = ''['' @ entry1_line @ '']'',
        finished = True\<rparr>"
  using malformed_bound_is_absent [of "Given ''undefined''" date_at parse_at stringify_at
      "Given ''2025-11-03T10:30:00.000Z''" "([store1], End)"] filtered_run
  by simp

subsection \<open>The filter, for bounds away from the epoch\<close>

lemma emitted_False: "emitted False xs = concat (map (\<lambda>x. '','' @ x) xs)"
  by (induction xs) simp_all

lemma emitted_True: "emitted True xs = joined xs"
proof (induction xs rule: joined.induct)
  case (3 x y ys)
  then show ?case by (simp add: emitted_False)
qed simp_all

lemma on_log_selected:
  "on_log stringify date fromT toT lg s =
     (if selected date fromT toT lg
      then s\<lparr>isFirstLog := False,
             response := (response s)\<lparr>headersSent := True,
               written := written (response s) @ emitted (isFirstLog s) [stringify lg]\<rparr>\<rparr>
      else s)"
  by (auto simp: on_log_def selected_def res_write_def split: option.splits)

lemma forEach_log_filter:
  assumes "JNull \<notin> set lgs"
  shows "forEach_log stringify date fromT toT lgs s =
     (if filter (selected date fromT toT) lgs = [] then s
      else s\<lparr>isFirstLog := False,
             response := (response s)\<lparr>headersSent := True,
               written := written (response s) @
                 emitted (isFirstLog s) (map stringify (filter (selected date fromT toT) lgs))\<rparr>\<rparr>,
      False)"
  using assms
proof (induction lgs arbitrary: s)
  case Nil
  then show ?case by simp
next
  case (Cons lg lgs)
  then have nn: "lg \<noteq> JNull" and rest: "JNull \<notin> set lgs" by auto
  show ?case
    using nn by (simp add: Cons.IH [OF rest] on_log_selected)
qed

lemma on_data_incomplete:
  assumes "parse (buffer s @ c) = None"
  shows "on_data parse stringify date fromT toT s c = s\<lparr>buffer := buffer s @ c\<rparr>"
  using assms by (simp add: on_data_def)

lemma foldl_on_data_incomplete:
  assumes "\<forall>k. 0 < k \<and> k \<le> length ps \<longrightarrow> parse (buffer s @ concat (take k ps)) = None"
  shows "foldl (on_data parse stringify date fromT toT) s ps = s\<lparr>buffer := buffer s @ concat ps\<rparr>"
  using assms
proof (induction ps rule: rev_induct)
  case Nil
  then show ?case by simp
next
  case (snoc p ps)
  have pre: "\<forall>k. 0 < k \<and> k \<le> length ps \<longrightarrow> parse (buffer s @ concat (take k ps)) = None"
  proof (intro allI impI)
    fix k assume k: "0 < k \<and> k \<le> length ps"
    then have "parse (buffer s @ concat (take k (ps @ [p]))) = None"
      using snoc.prems by (metis le_SucI length_append_singleton)
    then show "parse (buffer s @ concat (take k ps)) = None"
      using k by simp
  qed
  have last: "parse (buffer s @ concat ps @ p) = None"
    using snoc.prems [rule_format, of "Suc (length ps)"] by simp
  show ?case
    by (simp add: snoc.IH [OF pre] on_data_incomplete last)
qed

lemma on_data_complete:
  assumes "parse (buffer s @ c) = Some (JArr lgs)"
      and "JNull \<notin> set lgs"
      and "\<not> arrayStarted s"
      and "isFirstLog s"
  shows "on_data parse stringify date fromT toT s c =
     s\<lparr>buffer := [],
       isFirstLog := (filter (selected date fromT toT) lgs = []),
       arrayStarted := True,
       response := (response s)\<lparr>headersSent := True,
         written := written (response s) @ ''['' @
           joined (map stringify (filter (selected date fromT toT) lgs))\<rparr>\<rparr>"
  using assms
  by (simp add: on_data_def Let_def forEach_log_filter res_write_def emitted_True)

text \<open>
  A query with a bound in force, on a file that arrives in chunks none of whose proper
  prefixes parses and that holds an array without \<open>null\<close>: the response is the
  array of the entries the loop selects, in the order of the store.
\<close>

lemma filtered_query_streams:
  assumes active: "\<not> (falsy_time (bound_time date from_q) \<and> falsy_time (bound_time date to_q))"
      and chunks: "cs \<noteq> []"
      and whole: "parse (concat cs) = Some (JArr lgs)"
      and parts: "\<forall>k. 0 < k \<and> k < length cs \<longrightarrow> parse (concat (take k cs)) = None"
      and nonnull: "JNull \<notin> set lgs"
  shows "logs_handler parse stringify date from_q to_q (cs, End) =
     \<lparr>statusCode = 200, headersSent = True,
      written = streamed_array stringify
        (filter (selected date (bound_time date from_q) (bound_time date to_q)) lgs),
      finished = True\<rparr>"
proof (cases cs rule: rev_cases)
  case Nil
  then show ?thesis using chunks by simp
next
  case (snoc ps c)
  let ?f = "on_data parse stringify date (bound_time date from_q) (bound_time date to_q)"
  have pre: "\<forall>k. 0 < k \<and> k \<le> length ps \<longrightarrow> parse (buffer reader_init @ concat (take k ps)) = None"
  proof (intro allI impI)
    fix k assume k: "0 < k \<and> k \<le> length ps"
    then have "parse (concat (take k cs)) = None"
      using parts snoc by simp
    then show "parse (buffer reader_init @ concat (take k ps)) = None"
      using k snoc by (simp add: reader_init_def)
  qed
  have s1: "foldl ?f reader_init ps = reader_init\<lparr>buffer := concat ps\<rparr>"
    using foldl_on_data_incomplete [OF pre] by (simp add: reader_init_def)
  have step: "foldl ?f reader_init cs = ?f (reader_init\<lparr>buffer := concat ps\<rparr>) c"
    unfolding snoc by (simp add: s1)
  have last: "parse (buffer (reader_init\<lparr>buffer := concat ps\<rparr>) @ c) = Some (JArr lgs)"
    using whole unfolding snoc by simp
  have s2: "foldl ?f reader_init cs =
      \<lparr>buffer = [], isFirstLog = (filter (selected date (bound_time date from_q) (bound_time date to_q)) lgs = []),
       arrayStarted = True,
       response = \<lparr>statusCode = 200, headersSent = True,
         written = ''['' @ joined (map stringify
           (filter (selected date (bound_time date from_q) (bound_time date to_q)) lgs)),
         finished = False\<rparr>\<rparr>"
    unfolding step
    by (subst on_data_complete [of parse "reader_init\<lparr>buffer := concat ps\<rparr>" c lgs, OF last nonnull])
       (simp_all add: reader_init_def res_init_def)
  show ?thesis
    using active
    by (auto simp: logs_handler_def Let_def s2 on_end_def res_write_def res_end_def streamed_array_def)
qed

lemma selected_spec_passes:
  assumes "spec_bound date from_q \<noteq> Some 0"
      and "spec_bound date to_q \<noteq> Some 0"
      and "case prop_of ''timestamp'' e of None \<Rightarrow> True | Some ts \<Rightarrow> truthy (Some ts)"
  shows "selected date (bound_time date from_q) (bound_time date to_q) e = spec_passes date from_q to_q e"
proof -
  have f: "(case bound_time date from_q of None \<Rightarrow> True
             | Some b \<Rightarrow> falsy_time (Some b) \<or> num_ge t b)
         = (case spec_bound date from_q of None \<Rightarrow> True | Some a \<Rightarrow> num_ge t (Ms a))" for t
    using assms(1)
    by (cases from_q; cases "date (JStr (case from_q of Given s \<Rightarrow> s | Omitted \<Rightarrow> []))")
       (auto simp: bound_time_def spec_bound_def)
  have g: "(case bound_time date to_q of None \<Rightarrow> True
             | Some b \<Rightarrow> falsy_time (Some b) \<or> num_le t b)
         = (case spec_bound date to_q of None \<Rightarrow> True | Some a \<Rightarrow> num_le t (Ms a))" for t
    using assms(2)
    by (cases to_q; cases "date (JStr (case to_q of Given s \<Rightarrow> s | Omitted \<Rightarrow> []))")
       (auto simp: bound_time_def spec_bound_def)
  show ?thesis
    using assms(3)
    by (auto simp: selected_def spec_passes_def passesFilter_def f g split: option.splits)
qed

lemma bound_in_force:
  assumes "spec_bound date p \<noteq> None" and "spec_bound date p \<noteq> Some 0"
  shows "\<not> falsy_time (bound_time date p)"
  using assms
  by (auto simp: bound_time_def spec_bound_def split: qparam.splits if_splits jsnum.splits)

text \<open>
  With every supplied bound at an instant other than 0 and every timestamp of the
  store truthy (a non-empty string, say), that selection is the spec's filter, both
  bounds inclusive and entries without a timestamp left out.
\<close>

lemma filtered_query_matches_spec:
  assumes supplied: "spec_bound date from_q \<noteq> None \<or> spec_bound date to_q \<noteq> None"
      and nonzero: "spec_bound date from_q \<noteq> Some 0" "spec_bound date to_q \<noteq> Some 0"
      and chunks: "cs \<noteq> []"
      and whole: "parse (concat cs) = Some (JArr lgs)"
      and parts: "\<forall>k. 0 < k \<and> k < length cs \<longrightarrow> parse (concat (take k cs)) = None"
      and entries: "\<forall>e \<in> set lgs. e \<noteq> JNull \<and>
                      (case prop_of ''timestamp'' e of None \<Rightarrow> True | Some ts \<Rightarrow> truthy (Some ts))"
  shows "logs_handler parse stringify date from_q to_q (cs, End) =
     \<lparr>statusCode = 200, headersSent = True,
      written = streamed_array stringify (filter (spec_passes date from_q to_q) lgs),
      finished = True\<rparr>"
proof -
  have active: "\<not> (falsy_time (bound_time date from_q) \<and> falsy_time (bound_time date to_q))"
    using supplied nonzero bound_in_force by blast
  have nonnull: "JNull \<notin> set lgs"
    using entries by auto
  have same: "filter (selected date (bound_time date from_q) (bound_time date to_q)) lgs
            = filter (spec_passes date from_q to_q) lgs"
    by (rule filter_cong [OF refl]) (use entries nonzero in \<open>simp add: selected_spec_passes\<close>)
  show ?thesis
    using filtered_query_streams [OF active chunks whole parts nonnull] same by simp
qed

subsection \<open>An empty or missing file\<close>

text \<open>
  C3. What a query gets when the store is missing or empty. A missing file is an
  \<open>error\<close> of the read stream before anything was sent, and every query, with or
  without bounds, is answered \<open>500 {"error":"Internal Server Error"}\<close>. A file
  of no bytes gives \<open>[]\<close> to a query with a bound in force and an empty body (the
  file as it is) to a query without one. A file that holds the empty array gives
  \<open>[]\<close> to a query with a bound in force and the file as it is to a query without
  one. The last three with status 200.
\<close>

theorem logs_empty_or_missing:
  assumes "delivers d st"
  shows "(d = None \<longrightarrow>
            logs_handler parse stringify date from_q to_q st =
              \<lparr>statusCode = 500, headersSent = True,
               written = stringify (JObj [(''error'', JStr ''Internal Server Error'')]),
               finished = True\<rparr>)
       \<and> (d = Some [] \<longrightarrow>
            logs_handler parse stringify date from_q to_q st =
              \<lparr>statusCode = 200, headersSent = True,
               written = (if falsy_time (bound_time date from_q) \<and> falsy_time (bound_time date to_q)
                          then [] else ''[]''),
               finished = True\<rparr>)
       \<and> (\<forall>t. d = Some t \<and> t \<noteq> [] \<and> parse t = Some (JArr [])
              \<and> (\<forall>k. 0 < k \<and> k < length (fst st) \<longrightarrow> parse (concat (take k (fst st))) = None)
            \<longrightarrow> logs_handler parse stringify date from_q to_q st =
              \<lparr>statusCode = 200, headersSent = True,
               written = (if falsy_time (bound_time date from_q) \<and> falsy_time (bound_time date to_q)
                          then t else ''[]''),
               finished = True\<rparr>)"
proof (intro conjI impI allI)
  assume "d = None"
  then have "st = ([], Failed)" using assms by (simp add: delivers_None)
  then show "logs_handler parse stringify date from_q to_q st =
              \<lparr>statusCode = 500, headersSent = True,
               written = stringify (JObj [(''error'', JStr ''Internal Server Error'')]),
               finished = True\<rparr>"
    by (simp add: logs_handler_unfold passthrough_missing on_error_def reader_init_def
        res_init_def res_500_def)
next
  assume "d = Some []"
  then have "st = ([], End)" using assms by (simp add: delivers_empty)
  then show "logs_handler parse stringify date from_q to_q st =
              \<lparr>statusCode = 200, headersSent = True,
               written = (if falsy_time (bound_time date from_q) \<and> falsy_time (bound_time date to_q)
                          then [] else ''[]''),
               finished = True\<rparr>"
    by (simp add: logs_handler_unfold passthrough_End on_end_def reader_init_def res_init_def
        res_end_def res_write_def)
next
  fix t
  assume h: "d = Some t \<and> t \<noteq> [] \<and> parse t = Some (JArr [])
              \<and> (\<forall>k. 0 < k \<and> k < length (fst st) \<longrightarrow> parse (concat (take k (fst st))) = None)"
  then obtain cs where cs: "st = (cs, End)" "concat cs = t"
    using assms delivers_Some by blast
  have ne: "cs \<noteq> []" using cs h by auto
  show "logs_handler parse stringify date from_q to_q st =
              \<lparr>statusCode = 200, headersSent = True,
               written = (if falsy_time (bound_time date from_q) \<and> falsy_time (bound_time date to_q)
                          then t else ''[]''),
               finished = True\<rparr>"
  proof (cases "falsy_time (bound_time date from_q) \<and> falsy_time (bound_time date to_q)")
    case True
    then show ?thesis by (simp add: logs_handler_unfold cs passthrough_End)
  next
    case False
    have whole: "parse (concat cs) = Some (JArr [])" using h cs by simp
    have parts: "\<forall>k. 0 < k \<and> k < length cs \<longrightarrow> parse (concat (take k cs)) = None"
      using h cs by simp
    show ?thesis
      using filtered_query_streams [OF False ne whole parts, of stringify] False
      by (auto simp: cs streamed_array_def)
  qed
qed

theorem logs_empty_or_missing_witness:
  "logs_handler parse_at stringify_at date_at (Given ''2025-11-03T00:00:00.000Z'') Omitted ([], End) =
     \<lparr>statusCode = 200, headersSent = True, written = ''[]'', finished = True\<rparr>
   \<and> logs_handler parse_at stringify_at date_at Omitted Omitted ([], End) =
     \<lparr>statusCode = 200, headersSent = True, written = [], finished = True\<rparr>
   \<and> logs_handler parse_at stringify_at date_at (Given ''2025-11-03T00:00:00.000Z'') Omitted ([], Failed) =
     \<lparr>statusCode = 500, headersSent = True,
      written = ''{\"error\":\"Internal Server Error\"}'', finished = True\<rparr>
   \<and> logs_handler parse_at stringify_at date_at (Given ''2025-11-03T00:00:00.000Z'') Omitted
       ([''[]''], End) =
     \<lparr>statusCode = 200, headersSent = True, written = ''[]'', finished = True\<rparr>"
proof -
  have active: "\<not> falsy_time (bound_time date_at (Given ''2025-11-03T00:00:00.000Z''))"
    by (simp add: bound_time_def isValidParam_def date_at_def)
  have a: "logs_handler parse_at stringify_at date_at (Given ''2025-11-03T00:00:00.000Z'') Omitted
             ([], End) =
           \<lparr>statusCode = 200, headersSent = True, written = ''[]'', finished = True\<rparr>"
    using logs_empty_or_missing [of "Some []" "([], End)" parse_at stringify_at date_at
        "Given ''2025-11-03T00:00:00.000Z''" Omitted] active
    by (simp add: delivers_def)
  have b: "logs_handler parse_at stringify_at date_at Omitted Omitted ([], End) =
           \<lparr>statusCode = 200, headersSent = True, written = [], finished = True\<rparr>"
    using logs_empty_or_missing [of "Some []" "([], End)" parse_at stringify_at date_at
        Omitted Omitted]
    by (simp add: delivers_def)
  have c: "logs_handler parse_at stringify_at date_at (Given ''2025-11-03T00:00:00.000Z'') Omitted
             ([], Failed) =
           \<lparr>statusCode = 500, headersSent = True,
            written = ''{\"error\":\"Internal Server Error\"}'', finished = True\<rparr>"
    using logs_empty_or_missing [of None "([], Failed)" parse_at stringify_at date_at
        "Given ''2025-11-03T00:00:00.000Z''" Omitted]
    by (simp add: delivers_def stringify_at_def)
  have d: "logs_handler parse_at stringify_at date_at (Given ''2025-11-03T00:00:00.000Z'') Omitted
             ([''[]''], End) =
           \<lparr>statusCode = 200, headersSent = True, written = ''[]'', finished = True\<rparr>"
    using logs_empty_or_missing [of "Some ''[]''" "([''[]''], End)" parse_at stringify_at date_at
        "Given ''2025-11-03T00:00:00.000Z''" Omitted] active
    by (simp add: delivers_def parse_at_def)
  from a b c d show ?thesis by blast
qed

text \<open>A query without bounds for a file that does not exist is answered 500, not \<open>[]\<close>.\<close>

theorem logs_missing_counterexample:
  "delivers None ([], Failed)
   \<and> logs_handler parse_at stringify_at date_at Omitted Omitted ([], Failed) =
       \<lparr>statusCode = 500, headersSent = True,
        written = ''{\"error\":\"Internal Server Error\"}'', finished = True\<rparr>"
  by (simp add: delivers_def unbounded_query passthrough_missing stringify_at_def)

subsection \<open>A bound at the epoch\<close>

text \<open>
  C2. The query \<open>/api/logs?to=1970-01-01T00:00:00.000Z\<close> on the store \<open>store1\<close>.
  The bound is a date, so the spec's filter lets no entry of 2025 pass and the answer
  should be \<open>[]\<close>. For the code the time value 0 is falsy like a missing bound: no
  filter is in force and the whole file is sent.
\<close>

theorem epoch_bound_ignored:
  "logs_handler parse_at stringify_at date_at Omitted (Given ''1970-01-01T00:00:00.000Z'')
     ([store1], End) =
     \<lparr>statusCode = 200, headersSent = True, written = store1, finished = True\<rparr>
   \<and> parse_at store1 = Some (JArr [entry1])
   \<and> spec_bound date_at (Given ''1970-01-01T00:00:00.000Z'') = Some 0
   \<and> \<not> spec_passes date_at Omitted (Given ''1970-01-01T00:00:00.000Z'') entry1
   \<and> streamed_array stringify_at
        (filter (spec_passes date_at Omitted (Given ''1970-01-01T00:00:00.000Z'')) [entry1]) = ''[]''"
  by (simp add: logs_handler_def bound_time_def isValidParam_def date_at_def passthrough_End
      parse_at_store1 spec_passes_def spec_bound_def entry1_timestamp streamed_array_def)

section \<open>Schedules and the log fetch\<close>

lemma dec_403: "dec 403 = ''403''"
  by (simp add: dec.simps)

lemma dec_500: "dec 500 = ''500''"
  by (simp add: dec.simps)

lemma dec_ms: "dec 1762165800000 = ''1762165800000''"
  by (simp add: dec.simps)

lemma dec_1: "dec (Suc 0) = ''1''"
  by (simp add: dec.simps)

text \<open>
  C10. A response of the log source with status 401 or 403 makes \<open>getLogs\<close> throw
  \<open>Authentication required: <status> <statusText>. Please provide a valid auth token.\<close>;
  any other response that is not 2xx makes it throw
  \<open>Failed to fetch logs: <status> <statusText>\<close>. Both reach the caller as failures,
  and the start of the message tells the two flavours apart.
\<close>

theorem getLogs_auth_classification:
  assumes "net (logs_request bounds u token) = Response r"
  shows "(status_code r = 401 \<or> status_code r = 403 \<longrightarrow>
            getLogs net parse bounds u token =
              Inl (Error (''Authentication required: '' @ dec (status_code r) @ '' '' @ statusText r
                           @ ''. Please provide a valid auth token.'')))
       \<and> (\<not> response_ok r \<and> status_code r \<noteq> 401 \<and> status_code r \<noteq> 403 \<longrightarrow>
            getLogs net parse bounds u token =
              Inl (Error (''Failed to fetch logs: '' @ dec (status_code r) @ '' '' @ statusText r)))
       \<and> (\<not> response_ok r \<longrightarrow>
            (\<exists>e. getLogs net parse bounds u token = Inl e
                 \<and> auth_required e = (status_code r = 401 \<or> status_code r = 403)
                 \<and> fetch_failed e = (status_code r \<noteq> 401 \<and> status_code r \<noteq> 403)))"
  using assms
  by (auto simp: getLogs_def response_ok_def auth_required_def fetch_failed_def)

theorem getLogs_auth_classification_witness:
  "getLogs source_403 parse_at (None, None) ''https://x/logs'' None =
     Inl (Error ''Authentication required: 403 Forbidden. Please provide a valid auth token.'')
   \<and> getLogs source_500 parse_at (None, None) ''https://x/logs'' None =
     Inl (Error ''Failed to fetch logs: 500 Internal Server Error'')
   \<and> auth_required (Error ''Authentication required: 403 Forbidden. Please provide a valid auth token.'')
   \<and> \<not> auth_required (Error ''Failed to fetch logs: 500 Internal Server Error'')
   \<and> fetch_failed (Error ''Failed to fetch logs: 500 Internal Server Error'')"
  using getLogs_auth_classification [of source_403 "(None, None)" "''https://x/logs''" None
      "\<lparr>status_code = 403, statusText = ''Forbidden'', body_stream = None\<rparr>" parse_at]
    getLogs_auth_classification [of source_500 "(None, None)" "''https://x/logs''" None
      "\<lparr>status_code = 500, statusText = ''Internal Server Error'', body_stream = None\<rparr>" parse_at]
  by (simp add: source_403_def source_500_def response_ok_def dec_403 dec_500 auth_required_def
      fetch_failed_def)

text \<open>
  C9. \<open>createSchedule\<close> asks the external interpreter for the cron expression
  itself. When the interpreter replies with a text, the call succeeds: it returns
  the new id \<open>schedule-<counter>-<Date.now()>\<close> and the cron expression (the reply,
  trimmed by \<open>String.prototype.trim\<close>, backquotes and quotes removed) and registers
  under that id a configuration with the endpoint, the interval and that cron
  expression, leaving the other schedules as they were. When the interpreter's call
  is rejected, or its reply has no text, \<open>createSchedule\<close> throws
  \<open>Failed to create schedule: ...\<close> and registers nothing.
\<close>

theorem createSchedule_outcome:
  "(ag now itv = Inr (WithText txt) \<longrightarrow>
      (\<exists>M'. createSchedule trim ag now ms created ep itv opts M =
         Inr ((''schedule-'' @ dec (scheduleCounter M + 1) @ ''-'' @ dec ms,
               filter (\<lambda>c. c \<notin> set [CHR 0x60, CHR 0x27, CHR 0x22]) (trim txt)), M')
         \<and> scheduleCounter M' = scheduleCounter M + 1
         \<and> map_option schedule_id
              (schedules M' (''schedule-'' @ dec (scheduleCounter M + 1) @ ''-'' @ dec ms)) =
             Some (''schedule-'' @ dec (scheduleCounter M + 1) @ ''-'' @ dec ms)
         \<and> map_option endpoint
              (schedules M' (''schedule-'' @ dec (scheduleCounter M + 1) @ ''-'' @ dec ms)) = Some ep
         \<and> map_option interval
              (schedules M' (''schedule-'' @ dec (scheduleCounter M + 1) @ ''-'' @ dec ms)) = Some itv
         \<and> map_option cronExpression
              (schedules M' (''schedule-'' @ dec (scheduleCounter M + 1) @ ''-'' @ dec ms)) =
             Some (filter (\<lambda>c. c \<notin> set [CHR 0x60, CHR 0x27, CHR 0x22]) (trim txt))
         \<and> (\<forall>k. k \<noteq> ''schedule-'' @ dec (scheduleCounter M + 1) @ ''-'' @ dec ms \<longrightarrow>
                schedules M' k = schedules M k)))
   \<and> (ag now itv = Inl e \<longrightarrow>
        createSchedule trim ag now ms created ep itv opts M =
          Inl (ErrorObject (''Failed to create schedule: '' @
                 (case e of ErrorObject m \<Rightarrow> m | NotAnError \<Rightarrow> ''Unknown error''))))
   \<and> (ag now itv = Inr (WithoutText msg) \<longrightarrow>
        createSchedule trim ag now ms created ep itv opts M =
          Inl (ErrorObject (''Failed to create schedule: '' @ msg)))"
proof (cases "ag now itv")
  case (Inl e')
  then show ?thesis
    by (simp add: createSchedule_def parseToCronExpression_def)
next
  case (Inr r)
  show ?thesis
  proof (cases r)
    case (WithText txt')
    then have "parseToCronExpression trim ag now itv =
        Inr (filter (\<lambda>c. c \<notin> set [CHR 0x60, CHR 0x27, CHR 0x22]) (trim txt'))"
      using Inr by (simp add: parseToCronExpression_def)
    then show ?thesis
      using Inr WithText by (simp add: createSchedule_def Let_def)
  next
    case (WithoutText msg')
    then show ?thesis
      using Inr by (simp add: createSchedule_def parseToCronExpression_def)
  qed
qed

theorem createSchedule_outcome_witness:
  "(\<exists>M'. createSchedule trim_ascii agent_replies ''2025-11-03T10:30:00.000Z'' 1762165800000
           ''2025-11-03T10:30:00.000Z'' ''https://x/logs'' ''every 30 minutes'' None
           \<lparr>schedules = Map.empty, scheduleCounter = 0\<rparr> =
         Inr ((''schedule-1-1762165800000'', ''*/30 * * * *''), M')
         \<and> scheduleCounter M' = 1
         \<and> map_option endpoint (schedules M' ''schedule-1-1762165800000'') = Some ''https://x/logs''
         \<and> map_option cronExpression (schedules M' ''schedule-1-1762165800000'') = Some ''*/30 * * * *'')
   \<and> createSchedule trim_ascii agent_rejects ''2025-11-03T10:30:00.000Z'' 1762165800000
         ''2025-11-03T10:30:00.000Z'' ''https://x/logs'' ''every 30 minutes'' None
         \<lparr>schedules = Map.empty, scheduleCounter = 0\<rparr> =
       Inl (ErrorObject ''Failed to create schedule: 429 Too Many Requests'')
   \<and> createSchedule trim_ascii agent_without_text ''2025-11-03T10:30:00.000Z'' 1762165800000
         ''2025-11-03T10:30:00.000Z'' ''https://x/logs'' ''every 30 minutes'' None
         \<lparr>schedules = Map.empty, scheduleCounter = 0\<rparr> =
       Inl (ErrorObject (''Failed to create schedule: Cannot read properties of undefined (reading ''
                         @ [CHR 0x27] @ ''trim'' @ [CHR 0x27] @ '')''))"
  using createSchedule_outcome [of agent_replies "''2025-11-03T10:30:00.000Z''" "''every 30 minutes''"
      "CHR 0x60 # ''*/30 * * * *'' @ [CHR 0x60, CHR 0x0A]" trim_ascii 1762165800000
      "''2025-11-03T10:30:00.000Z''" "''https://x/logs''" None
      "\<lparr>schedules = Map.empty, scheduleCounter = 0\<rparr>"]
    createSchedule_outcome [of agent_rejects "''2025-11-03T10:30:00.000Z''" "''every 30 minutes''"
      "[]" trim_ascii 1762165800000 "''2025-11-03T10:30:00.000Z''" "''https://x/logs''" None
      "\<lparr>schedules = Map.empty, scheduleCounter = 0\<rparr>" "ErrorObject ''429 Too Many Requests''" "[]"]
    createSchedule_outcome [of agent_without_text "''2025-11-03T10:30:00.000Z''"
      "''every 30 minutes''" "[]" trim_ascii 1762165800000 "''2025-11-03T10:30:00.000Z''"
      "''https://x/logs''" None "\<lparr>schedules = Map.empty, scheduleCounter = 0\<rparr>" NotAnError
      "''Cannot read properties of undefined (reading '' @ [CHR 0x27] @ ''trim'' @ [CHR 0x27] @ '')''"]
  by (auto simp: agent_replies_def agent_rejects_def agent_without_text_def dec_ms dec_1
      trim_ascii_def is_space_def)

text \<open>An interpreter that is rate-limited: \<open>createSchedule\<close> throws.\<close>

theorem createSchedule_counterexample:
  "createSchedule trim_ascii agent_rejects ''2025-11-03T10:30:00.000Z'' 1762165800000
     ''2025-11-03T10:30:00.000Z'' ''https://x/logs'' ''every 30 minutes'' None
     \<lparr>schedules = Map.empty, scheduleCounter = 0\<rparr> =
   Inl (ErrorObject ''Failed to create schedule: 429 Too Many Requests'')"
  by (simp add: createSchedule_def parseToCronExpression_def agent_rejects_def)

end
